theory Spec2Isabelle
  imports Complex_Main "HOL-Library.Word" "HOL-Library.Monad_Syntax"
begin

section \<open>Multi-cell NR experiment: layout, traffic split and post-run scoring\<close>

text \<open>
  The development embeds the computations of \<^verbatim>\<open>nr_multi_cell_optimized.cc\<close>.
  The program is one long \<^verbatim>\<open>main\<close> with a handful of static helpers; each
  definition below is named after the C++ function or local variable whose value it
  computes, and keeps the order of the guards of the source.

  Conventions of the embedding:
  \<^item> a C++ \<^verbatim>\<open>double\<close> is a \<^typ>\<open>real\<close>: infinities and NaN are not represented,
    and, with one exception, neither is rounding, so a statement about a
    \<^verbatim>\<open>double\<close> is a statement about the exact value of the expression the program
    writes. The exception is the product \<^verbatim>\<open>embbRatio * numUEs\<close>, whose conversion to
    an integer makes the rounding observable: it is rounded as IEEE 754 binary64
    multiplication rounds it;
  \<^item> every \<^verbatim>\<open>double\<close> division of the post-run statistics goes through \<open>fdiv\<close>,
    which yields \<open>None\<close> on a zero denominator, so that a division the guards do not
    protect is visible in the result instead of being hidden by the convention
    \<open>x / 0 = 0\<close> of HOL;
  \<^item> unsigned counters whose arithmetic can wrap are words; counts that are only
    compared or converted to \<^verbatim>\<open>double\<close> are natural numbers.
\<close>

subsection \<open>Checked division\<close>

definition fdiv :: "real \<Rightarrow> real \<Rightarrow> real option" where
  "fdiv a b = (if b = 0 then None else Some (a / b))"

subsection \<open>Traffic classes and the per-UE eMBB rate (\<^verbatim>\<open>main\<close>, lines 389--413)\<close>

text \<open>
  Rounding to binary64, to nearest with ties to even. A binary64 value has a
  significand of 53 bits, so the values in the binade of \<open>x\<close>, from \<open>2\<^sup>e\<close> up to
  \<open>2\<^sup>e\<^sup>+\<^sup>1\<close>, are the multiples of \<open>2\<^sup>e\<^sup>-\<^sup>5\<^sup>2\<close>; below \<open>2\<^sup>-\<^sup>1\<^sup>0\<^sup>2\<^sup>2\<close> the spacing stays
  \<open>2\<^sup>-\<^sup>1\<^sup>0\<^sup>7\<^sup>4\<close>. \<open>binary64_ulp x\<close> is that spacing and \<open>binary64_round x\<close> the
  multiple of it nearest to \<open>x\<close>. Overflow to infinity is not represented: the one
  product rounded here is converted to \<^verbatim>\<open>uint32_t\<close>, for which a value that large
  is out of range whether it is finite or not.
\<close>

definition round_ties_even :: "real \<Rightarrow> int" where
  "round_ties_even q =
     (let f = \<lfloor>q\<rfloor>; d = q - of_int f
      in if d < 1 / 2 then f
         else if 1 / 2 < d then f + 1
         else if even f then f else f + 1)"

definition binary64_ulp :: "real \<Rightarrow> real" where
  "binary64_ulp x = 2 powr of_int (max \<lfloor>log 2 \<bar>x\<bar>\<rfloor> (- 1022) - 52)"

definition binary64_round :: "real \<Rightarrow> real" where
  "binary64_round x =
     (if x = 0 then 0 else of_int (round_ties_even (x / binary64_ulp x)) * binary64_ulp x)"

text \<open>
  \<^verbatim>\<open>uint32_t numEmbbUEs = static_cast<uint32_t>(embbRatio * numUEs);\<close>
  \<open>embbRatio\<close> is the value the \<^verbatim>\<open>double\<close> variable holds; \<^verbatim>\<open>numUEs\<close> is a
  \<^verbatim>\<open>uint32_t\<close>, converted to \<^verbatim>\<open>double\<close> without error; the product is rounded to
  binary64. The conversion of the product truncates towards zero and is defined only
  when the truncated value fits \<^verbatim>\<open>uint32_t\<close>; outside that range the C++ standard
  leaves it undefined, which is \<open>None\<close> here.
\<close>

definition numEmbbUEs :: "real \<Rightarrow> nat \<Rightarrow> nat option" where
  "numEmbbUEs embbRatio numUEs =
     (let p = binary64_round (embbRatio * real numUEs)
      in if - 1 < p \<and> p < 2 ^ 32 then Some (nat \<lfloor>p\<rfloor>) else None)"

text \<open>
  The classification loop: UE \<open>i\<close> is appended to \<^verbatim>\<open>embbUEs\<close> when
  \<open>i < numEmbbUEs\<close>, to \<^verbatim>\<open>urllcUEs\<close> otherwise. The two containers are the two
  components of the result, holding creation indices.
\<close>

definition classifyStep :: "nat \<Rightarrow> nat \<Rightarrow> nat list \<times> nat list \<Rightarrow> nat list \<times> nat list" where
  "classifyStep nEmbbUEs i acc =
     (if i < nEmbbUEs then (fst acc @ [i], snd acc) else (fst acc, snd acc @ [i]))"

definition classifyLoop :: "nat \<Rightarrow> nat \<Rightarrow> nat list \<times> nat list" where
  "classifyLoop nEmbbUEs numUEs = fold (classifyStep nEmbbUEs) [0..<numUEs] ([], [])"

definition classifyUEs :: "real \<Rightarrow> nat \<Rightarrow> (nat list \<times> nat list) option" where
  "classifyUEs embbRatio numUEs =
     map_option (\<lambda>k. classifyLoop k numUEs) (numEmbbUEs embbRatio numUEs)"

definition embbBudgetBps :: "bool \<Rightarrow> real" where
  "embbBudgetBps denseScenario = (if denseScenario then 300000000 else 200000000)"

text \<open>
  \<^verbatim>\<open>perUeRateBps\<close> is a \<^verbatim>\<open>uint64_t\<close>: the clamped fair share is converted by
  \<^verbatim>\<open>static_cast<uint64_t>\<close>, which drops the fraction. The clamped value lies between
  \<open>5e6\<close> and \<open>20e6\<close>, so the conversion is always defined.
\<close>

definition perUeRateBps :: "real \<Rightarrow> nat \<Rightarrow> nat" where
  "perUeRateBps budget nEmbb =
     (if nEmbb > 0
      then (let fairShare = budget / real nEmbb;
                fairShare = max 5000000 (min fairShare 20000000)
            in nat \<lfloor>fairShare\<rfloor>)
      else nat \<lfloor>10000000 :: real\<rfloor>)"

subsection \<open>Channel telemetry (\<^verbatim>\<open>ChannelMetrics\<close> and the trace callbacks, lines 34--114)\<close>

text \<open>
  \<^verbatim>\<open>samples\<close> is a \<^verbatim>\<open>uint32_t\<close> that the callback increments, so it is a word.
\<close>

record ChannelMetrics =
  sumSinrDb :: real
  sumRsrpDbm :: real
  sumRsrqDb :: real
  samples :: "32 word"
  maxSinr :: real
  minSinr :: real

text \<open>The default member initialisers of the struct.\<close>

definition ChannelMetrics_default :: ChannelMetrics where
  "ChannelMetrics_default =
     \<lparr>sumSinrDb = 0, sumRsrpDbm = 0, sumRsrqDb = 0, samples = 0,
      maxSinr = - 1000, minSinr = 1000\<rparr>"

text \<open>
  The globals the callbacks write: the two maps keyed by IMSI and the three handover
  counters. An \<^verbatim>\<open>unordered_map\<close> is a partial map; \<^verbatim>\<open>operator[]\<close> on a missing
  key inserts a value-initialised entry, which \<open>metricsOf\<close> and \<open>historyOf\<close> read.
\<close>

record Globals =
  g_channelMetrics :: "64 word \<rightharpoonup> ChannelMetrics"
  g_sinrHistory :: "64 word \<rightharpoonup> real list"
  g_handoverAttempts :: "32 word"
  g_handoverSuccess :: "32 word"
  g_handoverFailures :: "32 word"

definition Globals_init :: Globals where
  "Globals_init =
     \<lparr>g_channelMetrics = Map.empty, g_sinrHistory = Map.empty,
      g_handoverAttempts = 0, g_handoverSuccess = 0, g_handoverFailures = 0\<rparr>"

definition metricsOf :: "Globals \<Rightarrow> 64 word \<Rightarrow> ChannelMetrics" where
  "metricsOf g imsi =
     (case g_channelMetrics g imsi of None \<Rightarrow> ChannelMetrics_default | Some m \<Rightarrow> m)"

definition historyOf :: "Globals \<Rightarrow> 64 word \<Rightarrow> real list" where
  "historyOf g imsi = (case g_sinrHistory g imsi of None \<Rightarrow> [] | Some h \<Rightarrow> h)"

text \<open>
  \<^verbatim>\<open>EnhancedSinrCallback(imsi, params)\<close> reads only \<^verbatim>\<open>params.m_sinr\<close>, which is the
  second argument here. \<^verbatim>\<open>push_back\<close> appends; \<^verbatim>\<open>erase(begin())\<close> drops the head.
\<close>

definition EnhancedSinrCallback :: "64 word \<Rightarrow> real \<Rightarrow> Globals \<Rightarrow> Globals" where
  "EnhancedSinrCallback imsi m_sinr g =
     (if m_sinr > 0
      then (let sinrDb = 10 * log 10 m_sinr;
                metrics = metricsOf g imsi;
                metrics = metrics\<lparr>sumSinrDb := sumSinrDb metrics + sinrDb\<rparr>;
                metrics = metrics\<lparr>samples := samples metrics + 1\<rparr>;
                metrics = metrics\<lparr>maxSinr := max (maxSinr metrics) sinrDb\<rparr>;
                metrics = metrics\<lparr>minSinr := min (minSinr metrics) sinrDb\<rparr>;
                history = historyOf g imsi @ [sinrDb];
                history = (if length history > 1000 then tl history else history)
            in g\<lparr>g_channelMetrics := (g_channelMetrics g)(imsi \<mapsto> metrics),
                 g_sinrHistory := (g_sinrHistory g)(imsi \<mapsto> history)\<rparr>)
      else g)"

definition RsrpCallback :: "64 word \<Rightarrow> 16 word \<Rightarrow> real \<Rightarrow> Globals \<Rightarrow> Globals" where
  "RsrpCallback imsi cellId rsrp g =
     (let metrics = metricsOf g imsi
      in g\<lparr>g_channelMetrics :=
             (g_channelMetrics g)(imsi \<mapsto> metrics\<lparr>sumRsrpDbm := sumRsrpDbm metrics + rsrp\<rparr>)\<rparr>)"

definition RsrqCallback :: "64 word \<Rightarrow> 16 word \<Rightarrow> real \<Rightarrow> Globals \<Rightarrow> Globals" where
  "RsrqCallback imsi cellId rsrq g =
     (let metrics = metricsOf g imsi
      in g\<lparr>g_channelMetrics :=
             (g_channelMetrics g)(imsi \<mapsto> metrics\<lparr>sumRsrqDb := sumRsrqDb metrics + rsrq\<rparr>)\<rparr>)"

definition HandoverStartCallback :: "64 word \<Rightarrow> 16 word \<Rightarrow> 16 word \<Rightarrow> Globals \<Rightarrow> Globals" where
  "HandoverStartCallback imsi sourceCellId targetCellId g =
     g\<lparr>g_handoverAttempts := g_handoverAttempts g + 1\<rparr>"

definition HandoverSuccessCallback :: "64 word \<Rightarrow> 16 word \<Rightarrow> 16 word \<Rightarrow> Globals \<Rightarrow> Globals" where
  "HandoverSuccessCallback imsi sourceCellId targetCellId g =
     g\<lparr>g_handoverSuccess := g_handoverSuccess g + 1\<rparr>"

definition HandoverFailureCallback :: "64 word \<Rightarrow> 16 word \<Rightarrow> 16 word \<Rightarrow> Globals \<Rightarrow> Globals" where
  "HandoverFailureCallback imsi sourceCellId targetCellId g =
     g\<lparr>g_handoverFailures := g_handoverFailures g + 1\<rparr>"

text \<open>
  The simulator fires the connected traces in some order during the run. A run is the
  list of the trace events it fired, applied one after the other to the globals.
\<close>

datatype TraceEvent =
    RxPacketTraceUe "64 word" real
  | Rsrp "64 word" "16 word" real
  | Rsrq "64 word" "16 word" real
  | HandoverStart "64 word" "16 word" "16 word"
  | HandoverSuccess "64 word" "16 word" "16 word"
  | HandoverFailure "64 word" "16 word" "16 word"

fun fire :: "TraceEvent \<Rightarrow> Globals \<Rightarrow> Globals" where
  "fire (RxPacketTraceUe imsi m_sinr) g = EnhancedSinrCallback imsi m_sinr g"
| "fire (Rsrp imsi cellId rsrp) g = RsrpCallback imsi cellId rsrp g"
| "fire (Rsrq imsi cellId rsrq) g = RsrqCallback imsi cellId rsrq g"
| "fire (HandoverStart imsi s t) g = HandoverStartCallback imsi s t g"
| "fire (HandoverSuccess imsi s t) g = HandoverSuccessCallback imsi s t g"
| "fire (HandoverFailure imsi s t) g = HandoverFailureCallback imsi s t g"

fun runTraces :: "TraceEvent list \<Rightarrow> Globals \<Rightarrow> Globals" where
  "runTraces [] g = g"
| "runTraces (e # es) g = runTraces es (fire e g)"

text \<open>
  The SINR samples, in dB, that a run delivered for one UE and that the callback
  accepted (positive linear SINR), oldest first. This is what the history is compared
  with; it is not part of the program.
\<close>

fun acceptedSinrDb :: "64 word \<Rightarrow> TraceEvent list \<Rightarrow> real list" where
  "acceptedSinrDb imsi [] = []"
| "acceptedSinrDb imsi (RxPacketTraceUe i m_sinr # es) =
     (if i = imsi \<and> m_sinr > 0 then 10 * log 10 m_sinr # acceptedSinrDb imsi es
      else acceptedSinrDb imsi es)"
| "acceptedSinrDb imsi (e # es) = acceptedSinrDb imsi es"

subsection \<open>Cell layout (\<^verbatim>\<open>CreateOptimizedCellLayout\<close>, lines 117--180)\<close>

datatype ScenarioType = DENSE_URBAN | SPARSE_SUBURBAN

datatype Vector = Vector (vx: real) (vy: real) (vz: real)

text \<open>
  The \<^verbatim>\<open>ListPositionAllocator\<close> is the list of the positions added, in the order
  of the \<^verbatim>\<open>Add\<close> calls. The two \<^verbatim>\<open>for\<close> loops add one point per index.
\<close>

definition ringPoint :: "real \<Rightarrow> real \<Rightarrow> real \<Rightarrow> nat \<Rightarrow> Vector" where
  "ringPoint r d baseHeight i =
     (let angle = real i * pi / d in Vector (r * cos angle) (r * sin angle) baseHeight)"

definition CreateOptimizedCellLayout ::
    "nat \<Rightarrow> real \<Rightarrow> real \<Rightarrow> ScenarioType \<Rightarrow> Vector list" where
  "CreateOptimizedCellLayout numCells ISD baseHeight scenario =
     (let effectiveISD = (if scenario = DENSE_URBAN then ISD * 0.7 else ISD * 1.3)
      in if numCells = 1 then [Vector 0 0 baseHeight]
         else if numCells = 3 then
           (let r = effectiveISD * 0.577
            in [Vector 0 r baseHeight,
                Vector (- r * 0.866) (- r * 0.5) baseHeight,
                Vector (r * 0.866) (- r * 0.5) baseHeight])
         else if numCells = 5 then
           (let offset = effectiveISD * 0.7
            in [Vector 0 0 baseHeight,
                Vector offset 0 baseHeight,
                Vector (- offset) 0 baseHeight,
                Vector 0 offset baseHeight,
                Vector 0 (- offset) baseHeight])
         else if numCells = 7 then
           (let r = effectiveISD * 0.6
            in Vector 0 0 baseHeight # map (ringPoint r 3 baseHeight) [0..<6])
         else
           (let r = effectiveISD * 0.65
            in Vector 0 0 baseHeight # map (ringPoint r 4 baseHeight) [0..<8]))"

subsection \<open>Per-flow statistics (\<^verbatim>\<open>main\<close>, lines 572--665)\<close>

text \<open>
  The fields of \<^verbatim>\<open>FlowMonitor::FlowStats\<close> that the program reads. The struct is
  declared by the simulator library, not by this program, so the type of its packet
  counters is the parameter \<open>'c\<close>, instantiated below with the words of any width \<open>'w\<close>. The \<^verbatim>\<open>Time\<close> fields are held as the
  value of their \<^verbatim>\<open>GetSeconds()\<close>; \<^verbatim>\<open>rxBytes\<close> is only converted to
  \<^verbatim>\<open>double\<close>.
\<close>

record 'c FlowStats =
  txPackets :: 'c
  rxPackets :: 'c
  rxBytes :: nat
  timeFirstTxPacket :: real
  timeLastRxPacket :: real
  delaySum :: real
  jitterSum :: real

definition embbPort :: "16 word" where
  "embbPort = 7000"

definition urllcPort :: "16 word" where
  "urllcPort = 7001"

definition isEmbb :: "16 word \<Rightarrow> bool" where
  "isEmbb destinationPort = (destinationPort = embbPort)"

definition isUrllc :: "16 word \<Rightarrow> bool" where
  "isUrllc destinationPort = (destinationPort = urllcPort)"

text \<open>
  \<^verbatim>\<open>double avgSinr = (chanMetrics.samples > 0) ? sumSinrDb / samples : 0.0;\<close>
\<close>

definition avgSinr :: "ChannelMetrics \<Rightarrow> real option" where
  "avgSinr chanMetrics =
     (if samples chanMetrics > 0
      then fdiv (sumSinrDb chanMetrics) (real (unat (samples chanMetrics)))
      else Some 0)"

text \<open>
  The standard deviation over the history, around \<^verbatim>\<open>avgSinr\<close>. The loop adds the
  squared deviations in history order; \<^verbatim>\<open>size() - 1\<close> is unsigned, and is taken
  only when \<^verbatim>\<open>size() > 1\<close>.
\<close>

definition sinrStdDev :: "real \<Rightarrow> real list \<Rightarrow> real option" where
  "sinrStdDev mean history =
     (if length history > 1
      then do {
        let variance = fold (\<lambda>sinr variance. variance + (sinr - mean) * (sinr - mean)) history 0;
        variance \<leftarrow> fdiv variance (real (length history - 1));
        Some (sqrt variance)
      }
      else Some 0)"

text \<open>
  \<^verbatim>\<open>uint64_t lostPackets = fs.txPackets - fs.rxPackets;\<close>
  The subtraction is done in the type of the counters and wraps there; the result is
  then converted to \<^verbatim>\<open>uint64_t\<close>.
\<close>

definition lostPackets :: "('w :: len) word FlowStats \<Rightarrow> 64 word" where
  "lostPackets fs = ucast (txPackets fs - rxPackets fs)"

definition packetLossRatio :: "('w :: len) word FlowStats \<Rightarrow> real option" where
  "packetLossRatio fs =
     (if txPackets fs > 0
      then fdiv (100 * real (unat (lostPackets fs))) (real (unat (txPackets fs)))
      else Some 0)"

text \<open>
  \<^verbatim>\<open>throughput\<close>, \<^verbatim>\<open>meanDelay\<close> and \<^verbatim>\<open>meanJitter\<close> start at \<open>0.0\<close> and are
  assigned inside \<^verbatim>\<open>if (fs.rxPackets > 0)\<close>; each definition keeps the guards that
  enclose its assignment.
\<close>

definition throughput :: "('w :: len) word FlowStats \<Rightarrow> real option" where
  "throughput fs =
     (if rxPackets fs > 0
      then (let flowDuration = timeLastRxPacket fs - timeFirstTxPacket fs
            in if flowDuration > 0
               then fdiv (real (rxBytes fs) * 8) (flowDuration * 1000000)
               else Some 0)
      else Some 0)"

definition meanDelay :: "('w :: len) word FlowStats \<Rightarrow> real option" where
  "meanDelay fs =
     (if rxPackets fs > 0
      then do { d \<leftarrow> fdiv (delaySum fs) (real (unat (rxPackets fs))); Some (d * 1000) }
      else Some 0)"

definition meanJitter :: "('w :: len) word FlowStats \<Rightarrow> real option" where
  "meanJitter fs =
     (if rxPackets fs > 0
      then (if rxPackets fs > 1
            then do { j \<leftarrow> fdiv (jitterSum fs) (real (unat (rxPackets fs - 1))); Some (j * 1000) }
            else Some 0)
      else Some 0)"

text \<open>
  \<^verbatim>\<open>qoeScore *= (a / b)\<close>: the score times the quotient, when the quotient exists.
\<close>

definition scaleBy :: "real \<Rightarrow> real \<Rightarrow> real \<Rightarrow> real option" where
  "scaleBy score a b = do { f \<leftarrow> fdiv a b; Some (score * f) }"

text \<open>
  The QoE score. The first argument is the \<^verbatim>\<open>isEmbb\<close> flag of the flow; the
  \<^verbatim>\<open>else\<close> branch is taken by the URLLC flows, since a flow on neither port was
  skipped before.
\<close>

definition qoeScore :: "bool \<Rightarrow> real \<Rightarrow> real \<Rightarrow> real \<Rightarrow> real \<Rightarrow> real option" where
  "qoeScore embb thr delay loss jitter =
     do {
       let qoe = 100;
       qoe \<leftarrow>
         (if embb
          then do {
            qoe \<leftarrow> (if thr < 25 then scaleBy qoe thr 25 else Some qoe);
            qoe \<leftarrow> (if delay > 20 then scaleBy qoe 20 delay else Some qoe);
            (if loss > 1 then scaleBy qoe 1 loss else Some qoe)
          }
          else do {
            qoe \<leftarrow> (if delay > 5 then scaleBy qoe 5 delay else Some qoe);
            qoe \<leftarrow> (if loss > 0.1 then scaleBy qoe 0.1 loss else Some qoe);
            (if jitter > 2 then scaleBy qoe 2 jitter else Some qoe)
          });
       Some (max 0 (min 100 qoe))
     }"

text \<open>The reliability score, from the UE's channel metrics and its average SINR.\<close>

definition reliabilityScore :: "ChannelMetrics \<Rightarrow> real \<Rightarrow> real option" where
  "reliabilityScore chanMetrics avg =
     do {
       let rel = 100;
       rel \<leftarrow>
         (if samples chanMetrics > 0
          then do {
            let sinrRange = maxSinr chanMetrics - minSinr chanMetrics;
            rel \<leftarrow> (if sinrRange > 20 then scaleBy rel 20 sinrRange else Some rel);
            (if avg < 10 then scaleBy rel avg 10 else Some rel)
          }
          else Some rel);
       Some (max 0 (min 100 rel))
     }"

text \<open>
  One row of the flow file: the derived values of one flow that was not skipped,
  computed in the order of the source. The result is \<open>None\<close> exactly when one of the
  divisions on the way has a zero denominator.
\<close>

record FlowRow =
  row_avgSinr :: real
  row_sinrStdDev :: real
  row_lostPackets :: "64 word"
  row_packetLossRatio :: real
  row_throughput :: real
  row_meanDelay :: real
  row_meanJitter :: real
  row_qoeScore :: real
  row_reliabilityScore :: real

definition flowRow ::
    "bool \<Rightarrow> ChannelMetrics \<Rightarrow> real list \<Rightarrow> ('w :: len) word FlowStats \<Rightarrow> FlowRow option" where
  "flowRow embb chanMetrics history fs =
     do {
       avg \<leftarrow> avgSinr chanMetrics;
       dev \<leftarrow> sinrStdDev avg history;
       loss \<leftarrow> packetLossRatio fs;
       thr \<leftarrow> throughput fs;
       delay \<leftarrow> meanDelay fs;
       jitter \<leftarrow> meanJitter fs;
       qoe \<leftarrow> qoeScore embb thr delay loss jitter;
       rel \<leftarrow> reliabilityScore chanMetrics avg;
       Some \<lparr>row_avgSinr = avg, row_sinrStdDev = dev, row_lostPackets = lostPackets fs,
             row_packetLossRatio = loss, row_throughput = thr, row_meanDelay = delay,
             row_meanJitter = jitter, row_qoeScore = qoe, row_reliabilityScore = rel\<rparr>
     }"

subsection \<open>Per-cell load balance (\<^verbatim>\<open>main\<close>, lines 557--565 and 714--748)\<close>

record QoEMetrics =
  totalDelay :: real
  totalJitter :: real
  totalPackets :: "64 word"
  sumThroughput :: real
  flows :: "32 word"

record CellSummary =
  totalThroughput :: real
  totalTx :: "64 word"
  totalRx :: "64 word"
  totalLost :: "64 word"
  totalSinr :: real
  sinrSamples :: "32 word"
  qoe :: QoEMetrics

definition QoEMetrics_default :: QoEMetrics where
  "QoEMetrics_default =
     \<lparr>totalDelay = 0, totalJitter = 0, totalPackets = 0, sumThroughput = 0, flows = 0\<rparr>"

definition CellSummary_default :: CellSummary where
  "CellSummary_default =
     \<lparr>totalThroughput = 0, totalTx = 0, totalRx = 0, totalLost = 0, totalSinr = 0,
      sinrSamples = 0, qoe = QoEMetrics_default\<rparr>"

text \<open>
  \<^verbatim>\<open>std::map<uint32_t, CellSummary> cellSummaries\<close> is a list of entries with their
  keys; \<open>summaryOf\<close> is what \<^verbatim>\<open>cellSummaries[cellId]\<close> reads, a value-initialised
  summary for a cell without an entry.
\<close>

type_synonym CellSummaries = "(nat \<times> CellSummary) list"

definition summaryOf :: "CellSummaries \<Rightarrow> nat \<Rightarrow> CellSummary" where
  "summaryOf cellSummaries cellId =
     (case map_of cellSummaries cellId of None \<Rightarrow> CellSummary_default | Some s \<Rightarrow> s)"

text \<open>
  \<^verbatim>\<open>double maxCellThroughput = 0.0; for (cellStat : cellSummaries) maxCellThroughput =
  std::max(maxCellThroughput, cellStat.second.totalThroughput);\<close>
\<close>

definition maxCellThroughput :: "CellSummaries \<Rightarrow> real" where
  "maxCellThroughput cellSummaries =
     fold (\<lambda>cellStat m. max m (totalThroughput (snd cellStat))) cellSummaries 0"

definition loadBalance :: "CellSummaries \<Rightarrow> nat \<Rightarrow> real option" where
  "loadBalance cellSummaries cellId =
     (let summary = summaryOf cellSummaries cellId
      in if maxCellThroughput cellSummaries > 0
         then do {
           q \<leftarrow> fdiv (totalThroughput summary) (maxCellThroughput cellSummaries);
           Some (q * 100)
         }
         else Some 0)"

section \<open>Properties\<close>

subsection \<open>Traffic classes and the eMBB rate\<close>

lemma classifyLoop_split:
  "classifyLoop k n = ([0..<min k n], [min k n..<n])"
proof (induction n)
  case 0
  show ?case by (simp add: classifyLoop_def)
next
  case (Suc n)
  have "classifyLoop k (Suc n) = classifyStep k n (classifyLoop k n)"
    by (simp add: classifyLoop_def)
  also have "\<dots> = classifyStep k n ([0..<min k n], [min k n..<n])"
    by (simp only: Suc.IH)
  also have "\<dots> = ([0..<min k (Suc n)], [min k (Suc n)..<Suc n])"
  proof (cases "n < k")
    case True
    then have "min k n = n" "min k (Suc n) = Suc n" by simp_all
    with True show ?thesis by (simp add: classifyStep_def)
  next
    case False
    then show ?thesis by (simp add: classifyStep_def min_def)
  qed
  finally show ?case .
qed

lemma round_ties_even_bounds:
  "\<lfloor>q\<rfloor> \<le> round_ties_even q" "round_ties_even q \<le> \<lceil>q\<rceil>"
proof -
  show "\<lfloor>q\<rfloor> \<le> round_ties_even q"
    by (simp add: round_ties_even_def Let_def)
  have "\<lfloor>q\<rfloor> + 1 \<le> \<lceil>q\<rceil>" if "q - of_int \<lfloor>q\<rfloor> \<noteq> 0"
  proof -
    have "of_int \<lfloor>q\<rfloor> < q" using that of_int_floor_le [of q] by linarith
    then have "\<lfloor>q\<rfloor> < \<lceil>q\<rceil>" by (simp add: less_ceiling_iff)
    then show ?thesis by simp
  qed
  moreover have "\<lfloor>q\<rfloor> \<le> \<lceil>q\<rceil>" by (rule floor_le_ceiling)
  ultimately show "round_ties_even q \<le> \<lceil>q\<rceil>"
    by (auto simp add: round_ties_even_def Let_def)
qed

lemma binary64_ulp_below_2_32:
  assumes "0 < x" "x < 2 ^ 32"
  shows "\<exists>j. binary64_ulp x = 1 / 2 ^ j"
proof -
  define e where "e = max \<lfloor>log 2 \<bar>x\<bar>\<rfloor> (- 1022) - 52"
  have "log 2 x < 32"
    using assms less_powr_iff [of 2 x 32] by simp
  then have "\<lfloor>log 2 x\<rfloor> \<le> 31" by (simp add: floor_le_iff)
  then have neg: "e < 0" using assms by (simp add: e_def)
  have "binary64_ulp x = 2 powr of_int e"
    by (simp only: binary64_ulp_def e_def)
  also have "\<dots> = inverse (2 ^ nat (- e))"
    using neg powr_real_of_int [of 2 e] by simp
  finally show ?thesis by (auto simp: inverse_eq_divide)
qed

lemma binary64_round_grid:
  assumes "0 < x" "x < 2 ^ 32"
  shows "of_int m \<le> x \<Longrightarrow> of_int m \<le> binary64_round x"
    and "x \<le> of_int m \<Longrightarrow> binary64_round x \<le> of_int m"
proof -
  from binary64_ulp_below_2_32 [OF assms] obtain j where u: "binary64_ulp x = 1 / 2 ^ j"
    by blast
  let ?K = "(2::real) ^ j"
  have K: "0 < ?K" by simp
  have r: "binary64_round x = of_int (round_ties_even (x * ?K)) / ?K"
    using assms by (simp add: binary64_round_def u)
  have Ki: "?K = of_int (2 ^ j)" by simp
  show "of_int m \<le> binary64_round x" if "of_int m \<le> x"
  proof -
    have "of_int m * ?K \<le> x * ?K" using that K by (simp only: mult_le_cancel_right_pos)
    then have "of_int (m * 2 ^ j) \<le> x * ?K" by simp
    then have "m * 2 ^ j \<le> \<lfloor>x * ?K\<rfloor>" by (simp only: le_floor_iff)
    also have "\<dots> \<le> round_ties_even (x * ?K)" by (rule round_ties_even_bounds)
    finally have "(of_int (m * 2 ^ j) :: real) \<le> of_int (round_ties_even (x * ?K))"
      by (simp only: of_int_le_iff)
    then have "of_int m * ?K \<le> of_int (round_ties_even (x * ?K))" by simp
    then show ?thesis unfolding r using K by (simp only: pos_le_divide_eq)
  qed
  show "binary64_round x \<le> of_int m" if "x \<le> of_int m"
  proof -
    have "x * ?K \<le> of_int m * ?K" using that K by (simp only: mult_le_cancel_right_pos)
    then have "x * ?K \<le> of_int (m * 2 ^ j)" by simp
    then have "\<lceil>x * ?K\<rceil> \<le> m * 2 ^ j" by (simp only: ceiling_le_iff)
    with round_ties_even_bounds(2) [of "x * ?K"]
    have "round_ties_even (x * ?K) \<le> m * 2 ^ j" by linarith
    then have "(of_int (round_ties_even (x * ?K)) :: real) \<le> of_int (m * 2 ^ j)"
      by (simp only: of_int_le_iff)
    then have "of_int (round_ties_even (x * ?K)) \<le> of_int m * ?K" by simp
    then show ?thesis unfolding r using K by (simp only: pos_divide_le_eq)
  qed
qed

lemma binary64_round_between:
  assumes "0 \<le> x" "x < 2 ^ 32"
  shows "of_int \<lfloor>x\<rfloor> \<le> binary64_round x" "binary64_round x \<le> of_int \<lceil>x\<rceil>"
proof -
  show "of_int \<lfloor>x\<rfloor> \<le> binary64_round x"
  proof (cases "x = 0")
    case True
    then show ?thesis by (simp add: binary64_round_def)
  next
    case False
    with assms have "0 < x" by simp
    from binary64_round_grid(1) [OF this assms(2), of "\<lfloor>x\<rfloor>"] show ?thesis by simp
  qed
  show "binary64_round x \<le> of_int \<lceil>x\<rceil>"
  proof (cases "x = 0")
    case True
    then show ?thesis by (simp add: binary64_round_def)
  next
    case False
    with assms have "0 < x" by simp
    from binary64_round_grid(2) [OF this assms(2), of "\<lceil>x\<rceil>"] show ?thesis by simp
  qed
qed

lemma numEmbbUEs_ratio:
  assumes "0 \<le> r" "r \<le> 1" "n < 2 ^ 32"
  shows "numEmbbUEs r n = Some (nat \<lfloor>binary64_round (r * real n)\<rfloor>)"
    and "nat \<lfloor>r * real n\<rfloor> \<le> nat \<lfloor>binary64_round (r * real n)\<rfloor>"
    and "nat \<lfloor>binary64_round (r * real n)\<rfloor> \<le> nat \<lceil>r * real n\<rceil>"
    and "nat \<lfloor>binary64_round (r * real n)\<rfloor> \<le> n"
proof -
  let ?x = "r * real n" and ?p = "binary64_round (r * real n)"
  have x0: "0 \<le> ?x" using assms(1) by simp
  have xn: "?x \<le> real n" using mult_right_mono [of r 1 "real n"] assms(2) by simp
  have nb: "real n < 2 ^ 32" using assms(3)
    by (metis of_nat_less_iff of_nat_numeral of_nat_power)
  have xb: "?x < 2 ^ 32" using xn nb by linarith
  note b = binary64_round_between [OF x0 xb]
  have "(0::real) \<le> of_int \<lfloor>?x\<rfloor>" using x0 by simp
  with b(1) have p0: "0 \<le> ?p" by linarith
  have "\<lceil>?x\<rceil> \<le> int n" using xn by (simp add: ceiling_le_iff)
  then have "(of_int \<lceil>?x\<rceil> :: real) \<le> real n" by (metis of_int_le_iff of_int_of_nat_eq)
  with b(2) have pn: "?p \<le> real n" by linarith
  show "numEmbbUEs r n = Some (nat \<lfloor>?p\<rfloor>)"
    using p0 pn nb by (simp add: numEmbbUEs_def Let_def)
  have "\<lfloor>?x\<rfloor> \<le> \<lfloor>?p\<rfloor>" using b(1) by (simp add: le_floor_iff)
  then show "nat \<lfloor>?x\<rfloor> \<le> nat \<lfloor>?p\<rfloor>" by simp
  have "\<lfloor>?p\<rfloor> \<le> \<lceil>?x\<rceil>" using b(2) by (simp add: floor_le_iff)
  then show "nat \<lfloor>?p\<rfloor> \<le> nat \<lceil>?x\<rceil>" by simp
  have "\<lfloor>?p\<rfloor> \<le> int n" using pn by (simp add: floor_le_iff)
  then show "nat \<lfloor>?p\<rfloor> \<le> n" by simp
qed

text \<open>
  C9, as amended. For a ratio \<open>r\<close> between 0 and 1 and a UE count \<open>n\<close> that fits
  \<^verbatim>\<open>uint32_t\<close>, the classification is a prefix split by creation index: the eMBB
  container holds exactly the indices \<open>0, \<dots>, k - 1\<close> and the URLLC container exactly
  the indices \<open>k, \<dots>, n - 1\<close>, where \<open>k \<le> n\<close> is the integer part of the product
  \<open>r \<cdot> n\<close> rounded to binary64. That \<open>k\<close> is \<open>\<lfloor>r \<cdot> n\<rfloor>\<close> or, when the product rounds up
  to the next integer, \<open>\<lceil>r \<cdot> n\<rceil>\<close>.
\<close>

theorem classifyUEs_prefix_split:
  assumes "0 \<le> r" "r \<le> 1" "n < 2 ^ 32"
  shows "\<exists>k. k = nat \<lfloor>binary64_round (r * real n)\<rfloor>
           \<and> classifyUEs r n = Some ([0..<k], [k..<n])
           \<and> k \<le> n \<and> nat \<lfloor>r * real n\<rfloor> \<le> k \<and> k \<le> nat \<lceil>r * real n\<rceil>"
  using numEmbbUEs_ratio [OF assms]
  by (simp add: classifyUEs_def classifyLoop_split min_def)

lemma binary64_round_eval:
  fixes x lo y :: real and k f m :: int and j :: nat
  assumes "0 < x"
    and "lo = (if 0 \<le> k then 2 ^ nat k else 1 / 2 ^ nat (- k))" "lo \<le> x" "x < 2 * lo"
    and "- 1022 \<le> k" "k - 52 = - int j"
    and "of_int f \<le> x * 2 ^ j" "x * 2 ^ j < of_int f + 1"
    and "x * 2 ^ j - of_int f < 1 / 2 \<and> m = f \<or> 1 / 2 < x * 2 ^ j - of_int f \<and> m = f + 1"
    and "y = of_int m / 2 ^ j"
  shows "binary64_round x = y"
proof -
  have lo: "lo = 2 powr of_int k"
    using powr_real_of_int [of 2 k] by (simp add: assms(2) inverse_eq_divide)
  have "2 powr (of_int k + 1) = 2 * lo"
    by (simp only: powr_add lo) simp
  then have "\<lfloor>log 2 x\<rfloor> = k"
    using assms(1,3,4) lo by (simp add: floor_log_eq_powr_iff)
  then have "binary64_ulp x = 2 powr of_int (k - 52)"
    using assms(1,5) by (simp add: binary64_ulp_def)
  also have "\<dots> = 2 powr (- real j)"
    by (simp only: assms(6)) simp
  also have "\<dots> = 1 / 2 ^ j"
    by (simp add: powr_minus_divide powr_realpow)
  finally have u: "binary64_ulp x = 1 / 2 ^ j" .
  have fl: "\<lfloor>x * 2 ^ j\<rfloor> = f"
    using assms(7,8) by (simp add: floor_eq_iff)
  have "round_ties_even (x * 2 ^ j) = m"
    using assms(9) by (auto simp add: round_ties_even_def Let_def fl)
  then show ?thesis
    using assms(1,10) by (simp add: binary64_round_def u)
qed

lemma stored_06: "binary64_round (6 / 10) = 5404319552844595 / 9007199254740992"
  by (rule binary64_round_eval
      [where k = "- 1" and j = 53 and lo = "1 / 2" and f = 5404319552844595 and m = 5404319552844595])
    simp_all

lemma product_06_10:
  "binary64_round (5404319552844595 / 9007199254740992 * real (10::nat)) = 6"
  by (rule binary64_round_eval
      [where k = 2 and j = 50 and lo = 4 and f = 6755399441055743 and m = 6755399441055744])
    simp_all

lemma product_06_30:
  "binary64_round (5404319552844595 / 9007199254740992 * real (30::nat)) = 18"
  by (rule binary64_round_eval
      [where k = 4 and j = 48 and lo = 16 and f = 5066549580791807 and m = 5066549580791808])
    simp_all

lemma stored_029: "binary64_round (29 / 100) = 5224175567749775 / 18014398509481984"
  by (rule binary64_round_eval
      [where k = "- 2" and j = 54 and lo = "1 / 4" and f = 5224175567749775 and m = 5224175567749775])
    simp_all

lemma product_029_100:
  "binary64_round (5224175567749775 / 18014398509481984 * real (100::nat)) =
     8162774324609023 / 281474976710656"
  by (rule binary64_round_eval
      [where k = 4 and j = 48 and lo = 16 and f = 8162774324609023 and m = 8162774324609023])
    simp_all

lemma product_half_7: "binary64_round (1 / 2 * real (7::nat)) = 7 / 2"
  by (rule binary64_round_eval
      [where k = 1 and j = 51 and lo = 2 and f = 7881299347898368 and m = 7881299347898368])
    simp_all

text \<open>
  The scenario of the specification: \<^verbatim>\<open>embbRatio = 0.6\<close> holds the binary64 value
  \<open>5404319552844595 / 2\<^sup>5\<^sup>3\<close>; with ten UEs the eMBB indices are 0 to 5 and the URLLC
  indices 6 to 9, and with the thirty UEs of the default run the first 18 are eMBB. A
  ratio of one half over seven UEs gives the first three.
\<close>

theorem classifyUEs_prefix_split_witness:
  "classifyUEs (5404319552844595 / 9007199254740992) 10 = Some ([0, 1, 2, 3, 4, 5], [6, 7, 8, 9])
   \<and> classifyUEs (5404319552844595 / 9007199254740992) 30 = Some ([0..<18], [18..<30])
   \<and> classifyUEs (1 / 2) 7 = Some ([0, 1, 2], [3, 4, 5, 6])"
proof -
  have a: "[0..<6] = [0, 1, 2, 3, 4, 5::nat]" "[6..<10] = [6, 7, 8, 9::nat]"
    "[0..<3] = [0, 1, 2::nat]" "[3..<7] = [3, 4, 5, 6::nat]"
    by (simp_all add: upt_rec)
  show ?thesis
    using classifyUEs_prefix_split [of "5404319552844595 / 9007199254740992" 10]
      classifyUEs_prefix_split [of "5404319552844595 / 9007199254740992" 30]
      classifyUEs_prefix_split [of "1 / 2" 7]
    by (simp only: product_06_10 product_06_30 product_half_7) (simp add: a)
qed

text \<open>
  The number of eMBB UEs is not \<open>\<lfloor>r \<cdot> n\<rfloor>\<close> for every ratio between 0 and 1. The value
  that \<^verbatim>\<open>embbRatio = 0.6\<close> holds is a little below 0.6: its exact product with 10 is
  below 6, with the floor 5, but the product rounds to 6.0 and six UEs are eMBB. The
  value that \<^verbatim>\<open>embbRatio = 0.29\<close> holds gives, with 100 UEs, a rounded product below
  29 and 28 eMBB UEs, where \<open>\<lfloor>0.29 \<cdot> 100\<rfloor>\<close> is 29.
\<close>

theorem classifyUEs_rounded_product_counterexample:
  "binary64_round (6 / 10) = 5404319552844595 / 9007199254740992
   \<and> classifyUEs (5404319552844595 / 9007199254740992) 10 = Some ([0..<6], [6..<10])
   \<and> nat \<lfloor>5404319552844595 / 9007199254740992 * real (10::nat)\<rfloor> = 5
   \<and> binary64_round (29 / 100) = 5224175567749775 / 18014398509481984
   \<and> classifyUEs (5224175567749775 / 18014398509481984) 100 = Some ([0..<28], [28..<100])
   \<and> nat \<lfloor>29 / 100 * real (100::nat)\<rfloor> = 29"
proof -
  have c: "classifyUEs (5404319552844595 / 9007199254740992) 10 = Some ([0..<6], [6..<10])"
    by (simp only: classifyUEs_def numEmbbUEs_def Let_def product_06_10)
      (simp add: classifyLoop_split)
  have f: "nat \<lfloor>5404319552844595 / 9007199254740992 * real (10::nat)\<rfloor> = 5" by simp
  have d: "classifyUEs (5224175567749775 / 18014398509481984) 100 = Some ([0..<28], [28..<100])"
    by (simp only: classifyUEs_def numEmbbUEs_def Let_def product_029_100)
      (simp add: classifyLoop_split)
  have g: "nat \<lfloor>29 / 100 * real (100::nat)\<rfloor> = 29" by simp
  from stored_06 c f stored_029 d g show ?thesis by blast
qed

text \<open>
  C3, as amended. With no eMBB UE the rate is exactly 10000000 bps. Otherwise it is
  the fair share \<open>budget / n\<close> clamped to the interval from 5000000 to 20000000
  and then truncated to a whole number of bps, which is again in that interval.
\<close>

theorem perUeRateBps_truncated_clamp:
  "perUeRateBps budget 0 = 10000000
   \<and> (0 < n \<longrightarrow>
        perUeRateBps budget n = nat \<lfloor>max 5000000 (min (budget / real n) 20000000)\<rfloor>
        \<and> 5000000 \<le> perUeRateBps budget n \<and> perUeRateBps budget n \<le> 20000000)"
proof -
  let ?c = "max 5000000 (min (budget / real n) 20000000)"
  have lo: "(5000000::real) \<le> ?c" by simp
  have hi: "?c \<le> 20000000" by simp
  have "(5000000::int) \<le> \<lfloor>?c\<rfloor>" using lo by (simp add: le_floor_iff)
  then have l: "5000000 \<le> nat \<lfloor>?c\<rfloor>" by linarith
  have "\<lfloor>?c\<rfloor> \<le> (20000000::int)" using hi by (simp add: floor_le_iff)
  then have h: "nat \<lfloor>?c\<rfloor> \<le> 20000000" by linarith
  show ?thesis using l h by (simp add: perUeRateBps_def Let_def)
qed

text \<open>
  The scenario of the specification: the sparse budget of 200 Mbps over 50 UEs is a
  fair share of 4 Mbps, raised to the floor of 5 Mbps.
\<close>

theorem perUeRateBps_truncated_clamp_witness:
  "0 < (50::nat) \<and> perUeRateBps (embbBudgetBps False) 50 = 5000000"
  using perUeRateBps_truncated_clamp [of "embbBudgetBps False" 50]
  by (simp add: embbBudgetBps_def)

text \<open>
  The rate is a whole number of bps. The sparse budget over 18 UEs is a fair share of
  11111111.1 bps inside the interval, and the rate is 11111111 bps.
\<close>

theorem perUeRateBps_fraction_counterexample:
  "real (perUeRateBps 200000000 18) \<noteq> max 5000000 (min (200000000 / real (18::nat)) 20000000)"
proof -
  have "perUeRateBps 200000000 18 = 11111111"
    by (simp add: perUeRateBps_def Let_def)
  then show ?thesis by simp
qed

subsection \<open>Cell layout\<close>

text \<open>
  C4. For each of the counts 1, 3, 5, 7 and 9 the layout has exactly that many points;
  for every other count it is the layout of nine cells, with nine points; and for
  every count but 3 (the triangle has no centre) point 0 is \<open>(0, 0, baseHeight)\<close>.
  The layout is a function of its four arguments, so it is deterministic.
\<close>

theorem CreateOptimizedCellLayout_points:
  "(numCells \<in> {1, 3, 5, 7, 9} \<longrightarrow>
      length (CreateOptimizedCellLayout numCells ISD baseHeight scenario) = numCells)
   \<and> (numCells \<notin> {1, 3, 5, 7, 9} \<longrightarrow>
      CreateOptimizedCellLayout numCells ISD baseHeight scenario =
        CreateOptimizedCellLayout 9 ISD baseHeight scenario
      \<and> length (CreateOptimizedCellLayout numCells ISD baseHeight scenario) = 9)
   \<and> (numCells \<noteq> 3 \<longrightarrow>
      CreateOptimizedCellLayout numCells ISD baseHeight scenario ! 0 = Vector 0 0 baseHeight)"
  by (simp add: CreateOptimizedCellLayout_def Let_def)

text \<open>
  Seven cells give seven points with the centre first; four cells, an unsupported
  count, give the nine-cell layout; and the five-cell sparse layout for an inter-site
  distance of 200 m is the cross with arms of \<open>200 \<cdot> 1.3 \<cdot> 0.7 = 182\<close> m.
\<close>

theorem CreateOptimizedCellLayout_points_witness:
  "length (CreateOptimizedCellLayout 7 200 25 DENSE_URBAN) = 7
   \<and> CreateOptimizedCellLayout 4 200 25 DENSE_URBAN = CreateOptimizedCellLayout 9 200 25 DENSE_URBAN
   \<and> length (CreateOptimizedCellLayout 4 200 25 DENSE_URBAN) = 9
   \<and> CreateOptimizedCellLayout 7 200 25 DENSE_URBAN ! 0 = Vector 0 0 25
   \<and> CreateOptimizedCellLayout 5 200 25 SPARSE_SUBURBAN =
        [Vector 0 0 25, Vector 182 0 25, Vector (- 182) 0 25, Vector 0 182 25, Vector 0 (- 182) 25]"
  using CreateOptimizedCellLayout_points [of 7 200 25 DENSE_URBAN]
    CreateOptimizedCellLayout_points [of 4 200 25 DENSE_URBAN]
  by (simp add: CreateOptimizedCellLayout_def)

subsection \<open>Channel telemetry\<close>

lemma metricsOf_upd:
  "metricsOf (g\<lparr>g_channelMetrics := (g_channelMetrics g)(i \<mapsto> m), g_sinrHistory := h\<rparr>) j =
     (if j = i then m else metricsOf g j)"
  by (simp add: metricsOf_def)

lemma historyOf_upd:
  "historyOf (g\<lparr>g_channelMetrics := c, g_sinrHistory := (g_sinrHistory g)(i \<mapsto> h)\<rparr>) j =
     (if j = i then h else historyOf g j)"
  by (simp add: historyOf_def)

lemma EnhancedSinrCallback_history:
  "historyOf (EnhancedSinrCallback imsi m_sinr g) j =
     (if j = imsi \<and> m_sinr > 0
      then (if length (historyOf g imsi) < 1000
            then historyOf g imsi @ [10 * log 10 m_sinr]
            else tl (historyOf g imsi @ [10 * log 10 m_sinr]))
      else historyOf g j)"
  by (simp add: EnhancedSinrCallback_def Let_def historyOf_upd)

lemma EnhancedSinrCallback_metrics:
  "metricsOf (EnhancedSinrCallback imsi m_sinr g) j =
     (if j = imsi \<and> m_sinr > 0
      then (metricsOf g imsi)
             \<lparr>sumSinrDb := sumSinrDb (metricsOf g imsi) + 10 * log 10 m_sinr,
              samples := samples (metricsOf g imsi) + 1,
              maxSinr := max (maxSinr (metricsOf g imsi)) (10 * log 10 m_sinr),
              minSinr := min (minSinr (metricsOf g imsi)) (10 * log 10 m_sinr)\<rparr>
      else metricsOf g j)"
  by (simp add: EnhancedSinrCallback_def Let_def metricsOf_upd)

text \<open>
  C5. A sample with \<open>m_sinr \<le> 0\<close> leaves the globals as they are, so the metrics and
  the history of every UE are unchanged. A sample with \<open>m_sinr > 0\<close> adds
  \<open>10 \<cdot> log\<^sub>1\<^sub>0 m_sinr\<close> to the SINR sum of the UE, adds one to its sample count (a
  \<^verbatim>\<open>uint32_t\<close>), replaces its maximum and minimum by the maximum and minimum with the
  new dB value, leaves its RSRP and RSRQ sums alone, and appends the dB value to its
  history, dropping the oldest entry when the history already held 1000 entries.
\<close>

theorem EnhancedSinrCallback_effect:
  "(m_sinr \<le> 0 \<longrightarrow> EnhancedSinrCallback imsi m_sinr g = g)
   \<and> (m_sinr > 0 \<longrightarrow>
        sumSinrDb (metricsOf (EnhancedSinrCallback imsi m_sinr g) imsi) =
          sumSinrDb (metricsOf g imsi) + 10 * log 10 m_sinr
        \<and> samples (metricsOf (EnhancedSinrCallback imsi m_sinr g) imsi) =
          samples (metricsOf g imsi) + 1
        \<and> maxSinr (metricsOf (EnhancedSinrCallback imsi m_sinr g) imsi) =
          max (maxSinr (metricsOf g imsi)) (10 * log 10 m_sinr)
        \<and> minSinr (metricsOf (EnhancedSinrCallback imsi m_sinr g) imsi) =
          min (minSinr (metricsOf g imsi)) (10 * log 10 m_sinr)
        \<and> sumRsrpDbm (metricsOf (EnhancedSinrCallback imsi m_sinr g) imsi) =
          sumRsrpDbm (metricsOf g imsi)
        \<and> sumRsrqDb (metricsOf (EnhancedSinrCallback imsi m_sinr g) imsi) =
          sumRsrqDb (metricsOf g imsi)
        \<and> historyOf (EnhancedSinrCallback imsi m_sinr g) imsi =
          (if length (historyOf g imsi) < 1000
           then historyOf g imsi @ [10 * log 10 m_sinr]
           else tl (historyOf g imsi) @ [10 * log 10 m_sinr]))"
proof -
  have "tl (historyOf g imsi @ [10 * log 10 m_sinr]) = tl (historyOf g imsi) @ [10 * log 10 m_sinr]"
    if "\<not> length (historyOf g imsi) < 1000"
    using that by (cases "historyOf g imsi") simp_all
  then show ?thesis
    by (simp add: EnhancedSinrCallback_history EnhancedSinrCallback_metrics)
      (simp add: EnhancedSinrCallback_def)
qed

text \<open>
  On the initial globals, a sample of linear SINR 0 for UE 7 changes nothing, and a
  sample of linear SINR 100 is recorded as 20 dB.
\<close>

theorem EnhancedSinrCallback_effect_witness:
  "EnhancedSinrCallback 7 0 Globals_init = Globals_init
   \<and> sumSinrDb (metricsOf (EnhancedSinrCallback 7 100 Globals_init) 7) = 20
   \<and> samples (metricsOf (EnhancedSinrCallback 7 100 Globals_init) 7) = 1
   \<and> maxSinr (metricsOf (EnhancedSinrCallback 7 100 Globals_init) 7) = 20
   \<and> minSinr (metricsOf (EnhancedSinrCallback 7 100 Globals_init) 7) = 20
   \<and> historyOf (EnhancedSinrCallback 7 100 Globals_init) 7 = [20]"
proof -
  have l: "log 10 (100::real) = 2"
    using log_nat_power [of 10 10 2] by simp
  show ?thesis
    using EnhancedSinrCallback_effect [of 0 7 Globals_init]
      EnhancedSinrCallback_effect [of 100 7 Globals_init]
    by (simp add: l metricsOf_def historyOf_def Globals_init_def ChannelMetrics_default_def)
qed

lemma push_bounded_drop:
  fixes xs :: "'a list"
  assumes "0 < c"
  shows "(if length (drop (length xs - c) xs) < c
          then drop (length xs - c) xs @ [x]
          else tl (drop (length xs - c) xs @ [x])) =
         drop (length (xs @ [x]) - c) (xs @ [x])"
proof (cases "length xs < c")
  case True
  then show ?thesis by simp
next
  case False
  then have n: "c \<le> length xs" by simp
  then have len: "length (drop (length xs - c) xs) = c" by simp
  have ne: "drop (length xs - c) xs \<noteq> []" using len assms by auto
  have "tl (drop (length xs - c) xs @ [x]) = tl (drop (length xs - c) xs) @ [x]"
    using ne by simp
  also have "\<dots> = drop (Suc (length xs - c)) xs @ [x]"
    by (simp add: drop_Suc tl_drop)
  also have "\<dots> = drop (length (xs @ [x]) - c) (xs @ [x])"
    using n assms by (simp add: Suc_diff_le)
  finally show ?thesis using len by simp
qed

lemma historyOf_channelMetrics_update [simp]:
  "historyOf (g\<lparr>g_channelMetrics := c\<rparr>) j = historyOf g j"
  by (simp add: historyOf_def)

lemma historyOf_handover_update [simp]:
  "historyOf (g\<lparr>g_handoverAttempts := a\<rparr>) j = historyOf g j"
  "historyOf (g\<lparr>g_handoverSuccess := a\<rparr>) j = historyOf g j"
  "historyOf (g\<lparr>g_handoverFailures := a\<rparr>) j = historyOf g j"
  by (simp_all add: historyOf_def)

lemma fire_history:
  "historyOf (fire e g) imsi =
     (case e of
        RxPacketTraceUe i m_sinr \<Rightarrow>
          (if i = imsi \<and> m_sinr > 0
           then (if length (historyOf g imsi) < 1000
                 then historyOf g imsi @ [10 * log 10 m_sinr]
                 else tl (historyOf g imsi @ [10 * log 10 m_sinr]))
           else historyOf g imsi)
      | _ \<Rightarrow> historyOf g imsi)"
  by (cases e)
    (simp_all add: EnhancedSinrCallback_history RsrpCallback_def RsrqCallback_def Let_def
      HandoverStartCallback_def HandoverSuccessCallback_def HandoverFailureCallback_def)

lemma runTraces_history_from:
  "historyOf g imsi = drop (length xs - 1000) xs \<Longrightarrow>
   historyOf (runTraces evs g) imsi =
     drop (length (xs @ acceptedSinrDb imsi evs) - 1000) (xs @ acceptedSinrDb imsi evs)"
proof (induction evs arbitrary: g xs)
  case Nil
  then show ?case by simp
next
  case (Cons e evs)
  show ?case
  proof (cases "\<exists>m_sinr. e = RxPacketTraceUe imsi m_sinr \<and> m_sinr > 0")
    case True
    then obtain m_sinr where e: "e = RxPacketTraceUe imsi m_sinr" and pos: "m_sinr > 0"
      by blast
    let ?x = "10 * log 10 m_sinr"
    have 1: "historyOf (fire e g) imsi =
            (if length (historyOf g imsi) < 1000
             then historyOf g imsi @ [?x] else tl (historyOf g imsi @ [?x]))"
      using pos unfolding fire_history e by simp
    have 2: "\<dots> = drop (length (xs @ [?x]) - 1000) (xs @ [?x])"
      unfolding Cons.prems by (rule push_bounded_drop) simp
    from Cons.IH [OF trans [OF 1 2]] show ?thesis
      using pos by (simp add: e)
  next
    case False
    then have same: "historyOf (fire e g) imsi = historyOf g imsi"
      unfolding fire_history by (cases e) auto
    have acc: "acceptedSinrDb imsi (e # evs) = acceptedSinrDb imsi evs"
      using False by (cases e) auto
    have "historyOf (fire e g) imsi = drop (length xs - 1000) xs"
      using same Cons.prems by simp
    from Cons.IH [OF this] show ?thesis
      by (simp add: acc)
  qed
qed

lemma runTraces_append: "runTraces (es @ fs) g = runTraces fs (runTraces es g)"
  by (induction es arbitrary: g) simp_all

lemma acceptedSinrDb_append:
  "acceptedSinrDb imsi (es @ fs) = acceptedSinrDb imsi es @ acceptedSinrDb imsi fs"
  by (induction imsi es rule: acceptedSinrDb.induct) simp_all

lemma acceptedSinrDb_replicate:
  "m_sinr > 0 \<Longrightarrow>
   acceptedSinrDb imsi (replicate n (RxPacketTraceUe imsi m_sinr)) =
     replicate n (10 * log 10 m_sinr)"
  by (induction n) simp_all

text \<open>
  C6. After any finite run of trace events from the initial globals, the SINR history
  of a UE has at most 1000 entries and is exactly the last 1000 (or all, when there
  are fewer) of the dB samples the callback accepted for that UE, in arrival order.
  One more sample for the UE is appended at the end; when the history already held
  1000 entries its head, the oldest entry, is the one dropped.
\<close>

theorem sinrHistory_bounded_fifo:
  "length (historyOf (runTraces evs Globals_init) imsi) \<le> 1000
   \<and> historyOf (runTraces evs Globals_init) imsi =
       drop (length (acceptedSinrDb imsi evs) - 1000) (acceptedSinrDb imsi evs)
   \<and> historyOf (runTraces (evs @ [RxPacketTraceUe imsi m_sinr]) Globals_init) imsi =
       (if m_sinr > 0
        then (if length (historyOf (runTraces evs Globals_init) imsi) < 1000
              then historyOf (runTraces evs Globals_init) imsi @ [10 * log 10 m_sinr]
              else tl (historyOf (runTraces evs Globals_init) imsi) @ [10 * log 10 m_sinr])
        else historyOf (runTraces evs Globals_init) imsi)"
proof -
  have init: "historyOf Globals_init imsi = drop (length ([]::real list) - 1000) []"
    by (simp add: historyOf_def Globals_init_def)
  have eq: "historyOf (runTraces evs Globals_init) imsi =
       drop (length (acceptedSinrDb imsi evs) - 1000) (acceptedSinrDb imsi evs)"
    using runTraces_history_from [OF init, of evs] by simp
  have len: "length (historyOf (runTraces evs Globals_init) imsi) \<le> 1000"
    by (simp add: eq)
  have "tl (h @ [y]) = tl h @ [y]" if "\<not> length h < 1000" for h :: "real list" and y
    using that by (cases h) simp_all
  then have step: "historyOf (runTraces (evs @ [RxPacketTraceUe imsi m_sinr]) Globals_init) imsi =
       (if m_sinr > 0
        then (if length (historyOf (runTraces evs Globals_init) imsi) < 1000
              then historyOf (runTraces evs Globals_init) imsi @ [10 * log 10 m_sinr]
              else tl (historyOf (runTraces evs Globals_init) imsi) @ [10 * log 10 m_sinr])
        else historyOf (runTraces evs Globals_init) imsi)"
    by (simp add: runTraces_append EnhancedSinrCallback_history)
  from len eq step show ?thesis by blast
qed

text \<open>
  A run of 1000 samples of 20 dB for UE 7, an RSRP report and one more sample of 10 dB
  leaves the last 999 samples of 20 dB followed by the sample of 10 dB; a short run
  shows that samples with zero SINR and samples of another UE are not recorded.
\<close>

theorem sinrHistory_bounded_fifo_witness:
  "historyOf (runTraces (replicate 1000 (RxPacketTraceUe 7 100) @ [Rsrp 7 1 (- 80), RxPacketTraceUe 7 10])
      Globals_init) 7 = replicate 999 20 @ [10]
   \<and> historyOf (runTraces [RxPacketTraceUe 7 100, RxPacketTraceUe 7 0, RxPacketTraceUe 8 10,
        RxPacketTraceUe 7 10] Globals_init) 7 = [20, 10]"
proof -
  have l2: "log 10 (100::real) = 2"
    using log_nat_power [of 10 10 2] by simp
  have a: "acceptedSinrDb 7 (replicate 1000 (RxPacketTraceUe 7 100) @ [Rsrp 7 1 (- 80), RxPacketTraceUe 7 10])
        = replicate 1000 20 @ [10]"
    by (simp add: acceptedSinrDb_append acceptedSinrDb_replicate l2)
  have b: "drop 1 (replicate 1000 (20::real) @ [10]) = replicate 999 20 @ [10]"
    by simp
  show ?thesis
    using sinrHistory_bounded_fifo
        [of "replicate 1000 (RxPacketTraceUe 7 100) @ [Rsrp 7 1 (- 80), RxPacketTraceUe 7 10]" 7 1]
      sinrHistory_bounded_fifo
        [of "[RxPacketTraceUe 7 100, RxPacketTraceUe 7 0, RxPacketTraceUe 8 10, RxPacketTraceUe 7 10]" 7 1]
    by (simp add: a b l2)
qed

subsection \<open>Per-flow scores\<close>

lemma urllc_not_embb: "isUrllc p \<Longrightarrow> \<not> isEmbb p"
  by (simp add: isUrllc_def isEmbb_def urllcPort_def embbPort_def)

lemma scaleBy_Some: "b \<noteq> 0 \<Longrightarrow> scaleBy q a b = Some (q * (a / b))"
  by (simp add: scaleBy_def fdiv_def)

lemma penalty:
  assumes "c \<Longrightarrow> b \<noteq> 0"
  shows "(if c then scaleBy q a b else Some q) = Some (q * (if c then a / b else 1))"
  using assms by (simp add: scaleBy_Some)

lemma qoeScore_urllc:
  "qoeScore False thr delay loss jitter =
     Some (max 0 (min 100
       (100 * (if delay > 5 then 5 / delay else 1)
            * (if loss > 0.1 then 0.1 / loss else 1)
            * (if jitter > 2 then 2 / jitter else 1))))"
proof -
  have 1: "(if delay > 5 then scaleBy q 5 delay else Some q) =
             Some (q * (if delay > 5 then 5 / delay else 1))" for q
    by (rule penalty) simp
  have 2: "(if loss > 0.1 then scaleBy q 0.1 loss else Some q) =
             Some (q * (if loss > 0.1 then 0.1 / loss else 1))" for q
    by (rule penalty) simp
  have 3: "(if jitter > 2 then scaleBy q 2 jitter else Some q) =
             Some (q * (if jitter > 2 then 2 / jitter else 1))" for q
    by (rule penalty) simp
  show ?thesis
    unfolding qoeScore_def Let_def by (simp only: if_False 1 2 3 Option.bind.simps)
qed

lemma qoeScore_embb:
  "qoeScore True thr delay loss jitter =
     Some (max 0 (min 100
       (100 * (if thr < 25 then thr / 25 else 1)
            * (if delay > 20 then 20 / delay else 1)
            * (if loss > 1 then 1 / loss else 1))))"
proof -
  have 1: "(if thr < 25 then scaleBy q thr 25 else Some q) =
             Some (q * (if thr < 25 then thr / 25 else 1))" for q
    by (rule penalty) simp
  have 2: "(if delay > 20 then scaleBy q 20 delay else Some q) =
             Some (q * (if delay > 20 then 20 / delay else 1))" for q
    by (rule penalty) simp
  have 3: "(if loss > 1 then scaleBy q 1 loss else Some q) =
             Some (q * (if loss > 1 then 1 / loss else 1))" for q
    by (rule penalty) simp
  show ?thesis
    unfolding qoeScore_def Let_def by (simp only: if_True 1 2 3 Option.bind.simps)
qed

lemma reliabilityScore_samples:
  assumes "samples chanMetrics > 0"
  shows "reliabilityScore chanMetrics avg =
        Some (max 0 (min 100
          (100 * (if maxSinr chanMetrics - minSinr chanMetrics > 20
                  then 20 / (maxSinr chanMetrics - minSinr chanMetrics) else 1)
               * (if avg < 10 then avg / 10 else 1))))"
proof -
  let ?range = "maxSinr chanMetrics - minSinr chanMetrics"
  have 1: "(if ?range > 20 then scaleBy q 20 ?range else Some q) =
             Some (q * (if ?range > 20 then 20 / ?range else 1))" for q
    by (rule penalty) simp
  have 2: "(if avg < 10 then scaleBy q avg 10 else Some q) =
             Some (q * (if avg < 10 then avg / 10 else 1))" for q
    by (rule penalty) simp
  show ?thesis
    unfolding reliabilityScore_def Let_def using assms
    by (simp only: if_True 1 2 Option.bind.simps)
qed

lemma reliabilityScore_no_samples:
  "samples chanMetrics = 0 \<Longrightarrow> reliabilityScore chanMetrics avg = Some 100"
  by (simp add: reliabilityScore_def)

text \<open>
  C1. For a flow on the URLLC port the QoE score is 100 times \<open>5 / meanDelay\<close> when
  \<open>meanDelay > 5\<close>, times \<open>0.1 / lossRatio\<close> when \<open>lossRatio > 0.1\<close>, times
  \<open>2 / meanJitter\<close> when \<open>meanJitter > 2\<close>, each factor applied on its own, and the
  product clamped to the interval from 0 to 100; at a mean delay of exactly 5 ms the
  delay factor is absent. For a flow on the eMBB port the three factors are
  \<open>throughput / 25\<close> when \<open>throughput < 25\<close>, \<open>20 / meanDelay\<close> when \<open>meanDelay > 20\<close>
  and \<open>1 / lossRatio\<close> when \<open>lossRatio > 1\<close>. No division has a zero denominator.
\<close>

theorem qoeScore_strict_thresholds:
  "(isUrllc port \<longrightarrow>
      qoeScore (isEmbb port) thr delay loss jitter =
        Some (max 0 (min 100
          (100 * (if delay > 5 then 5 / delay else 1)
               * (if loss > 0.1 then 0.1 / loss else 1)
               * (if jitter > 2 then 2 / jitter else 1))))
      \<and> qoeScore (isEmbb port) thr 5 loss jitter =
        Some (max 0 (min 100
          (100 * (if loss > 0.1 then 0.1 / loss else 1)
               * (if jitter > 2 then 2 / jitter else 1)))))
   \<and> (isEmbb port \<longrightarrow>
      qoeScore (isEmbb port) thr delay loss jitter =
        Some (max 0 (min 100
          (100 * (if thr < 25 then thr / 25 else 1)
               * (if delay > 20 then 20 / delay else 1)
               * (if loss > 1 then 1 / loss else 1)))))"
  using urllc_not_embb [of port]
  by (auto simp add: qoeScore_urllc qoeScore_embb)

text \<open>
  The scenario of the specification: 1000 packets sent and received with a delay sum of
  5 s give a mean delay of exactly 5 ms, and the URLLC score stays 100. A URLLC flow
  over all three thresholds and an eMBB flow over all three are scored 12.5 and 20.
\<close>

theorem qoeScore_strict_thresholds_witness:
  "isUrllc 7001 \<and> isEmbb 7000
   \<and> meanDelay \<lparr>txPackets = 1000 :: 32 word, rxPackets = 1000, rxBytes = 100000,
        timeFirstTxPacket = 5, timeLastRxPacket = 15, delaySum = 5, jitterSum = 0\<rparr> = Some 5
   \<and> qoeScore (isEmbb 7001) 0.08 5 0 0 = Some 100
   \<and> qoeScore (isEmbb 7001) 0.08 10 0.2 4 = Some 12.5
   \<and> qoeScore (isEmbb 7000) 20 40 2 0 = Some 20"
  using qoeScore_strict_thresholds [of 7001 "0.08" 5 0 0]
    qoeScore_strict_thresholds [of 7001 "0.08" 10 "0.2" 4]
    qoeScore_strict_thresholds [of 7000 20 40 2 0]
  by (simp add: isUrllc_def isEmbb_def urllcPort_def embbPort_def meanDelay_def fdiv_def)

text \<open>
  C2, as amended. For a flow whose UE has at least one SINR sample the reliability
  score is 100 times \<open>20 / (maxSinr - minSinr)\<close> when the range exceeds 20 dB, times
  \<open>avgSinr / 10\<close> when the average is below 10 dB (a factor that may be negative),
  clamped to the interval from 0 to 100. For a flow whose UE has no sample the score
  is 100. In both cases the score exists and lies between 0 and 100.
\<close>

theorem reliabilityScore_guarded:
  "(samples chanMetrics > 0 \<longrightarrow>
      reliabilityScore chanMetrics avg =
        Some (max 0 (min 100
          (100 * (if maxSinr chanMetrics - minSinr chanMetrics > 20
                  then 20 / (maxSinr chanMetrics - minSinr chanMetrics) else 1)
               * (if avg < 10 then avg / 10 else 1)))))
   \<and> (samples chanMetrics = 0 \<longrightarrow> reliabilityScore chanMetrics avg = Some 100)
   \<and> (\<exists>s. reliabilityScore chanMetrics avg = Some s \<and> 0 \<le> s \<and> s \<le> 100)"
proof -
  have "\<exists>s. reliabilityScore chanMetrics avg = Some s \<and> 0 \<le> s \<and> s \<le> 100"
  proof (cases "samples chanMetrics = 0")
    case True
    then show ?thesis by (simp add: reliabilityScore_no_samples)
  next
    case False
    then have "samples chanMetrics > 0" by (simp add: word_greater_zero_iff)
    then show ?thesis by (simp only: reliabilityScore_samples) simp
  qed
  then show ?thesis
    using reliabilityScore_samples [of chanMetrics avg]
      reliabilityScore_no_samples [of chanMetrics avg] by blast
qed

text \<open>
  A UE with samples, a range of 40 dB and an average of -5 dB is scored 0 (the product
  is negative before the clamp); with an average of 5 dB it is scored 25; the default
  metrics, with no sample, are scored 100.
\<close>

theorem reliabilityScore_guarded_witness:
  "reliabilityScore \<lparr>sumSinrDb = 30, sumRsrpDbm = 0, sumRsrqDb = 0, samples = 3,
       maxSinr = 30, minSinr = - 10\<rparr> (- 5) = Some 0
   \<and> reliabilityScore \<lparr>sumSinrDb = 15, sumRsrpDbm = 0, sumRsrqDb = 0, samples = 3,
       maxSinr = 30, minSinr = - 10\<rparr> 5 = Some 25
   \<and> reliabilityScore ChannelMetrics_default 0 = Some 100"
  using reliabilityScore_guarded [of "\<lparr>sumSinrDb = 30, sumRsrpDbm = 0, sumRsrqDb = 0, samples = 3,
       maxSinr = 30, minSinr = - 10\<rparr>" "- 5"]
    reliabilityScore_guarded [of "\<lparr>sumSinrDb = 15, sumRsrpDbm = 0, sumRsrqDb = 0, samples = 3,
       maxSinr = 30, minSinr = - 10\<rparr>" 5]
    reliabilityScore_guarded [of ChannelMetrics_default 0]
  by (simp add: ChannelMetrics_default_def)

text \<open>
  A UE without samples has the average SINR 0, which is below 10 dB, so the two
  factors applied without the guard on the sample count give the score 0; the program
  gives 100.
\<close>

theorem reliabilityScore_no_samples_counterexample:
  "avgSinr ChannelMetrics_default = Some 0
   \<and> reliabilityScore ChannelMetrics_default 0 = Some 100
   \<and> max 0 (min 100
        (100 * (if maxSinr ChannelMetrics_default - minSinr ChannelMetrics_default > 20
                then 20 / (maxSinr ChannelMetrics_default - minSinr ChannelMetrics_default) else 1)
             * (if (0::real) < 10 then 0 / 10 else 1))) = (0::real)"
  by (simp add: avgSinr_def reliabilityScore_def ChannelMetrics_default_def)

subsection \<open>Per-flow ratios\<close>

lemma fdiv_Some: "b \<noteq> 0 \<Longrightarrow> fdiv a b = Some (a / b)"
  by (simp add: fdiv_def)

lemma unat_pred_pos:
  fixes w :: "'a::len word"
  assumes "1 < w"
  shows "unat (w - 1) = unat w - 1" and "1 < unat w"
proof -
  from assms show one: "1 < unat w" by (simp add: word_less_nat_alt)
  then have "w \<noteq> 0" by auto
  then show "unat (w - 1) = unat w - 1" by (rule unat_minus_one)
qed

lemma packetLossRatio_value:
  "packetLossRatio fs =
     Some (if txPackets fs = 0 then 0
           else 100 * real (unat (lostPackets fs)) / real (unat (txPackets fs)))"
  by (simp add: packetLossRatio_def fdiv_def unsigned_eq_0_iff word_greater_zero_iff)

lemma throughput_value:
  "throughput fs =
     Some (if rxPackets fs = 0 \<or> timeLastRxPacket fs - timeFirstTxPacket fs \<le> 0 then 0
           else real (rxBytes fs) * 8 / ((timeLastRxPacket fs - timeFirstTxPacket fs) * 1000000))"
  by (simp add: throughput_def fdiv_def Let_def word_greater_zero_iff)

lemma meanDelay_value:
  "meanDelay fs =
     Some (if rxPackets fs = 0 then 0
           else delaySum fs / real (unat (rxPackets fs)) * 1000)"
  by (simp add: meanDelay_def fdiv_def unsigned_eq_0_iff word_greater_zero_iff)

lemma meanJitter_value:
  "meanJitter fs =
     Some (if rxPackets fs > 1 then jitterSum fs / (real (unat (rxPackets fs)) - 1) * 1000
           else 0)"
proof (cases "rxPackets fs > 1")
  case True
  note u = unat_pred_pos [OF True]
  have r: "real (unat (rxPackets fs) - 1) = real (unat (rxPackets fs)) - 1"
    using u(2) by (simp add: of_nat_diff)
  have nz: "real (unat (rxPackets fs)) - 1 \<noteq> 0"
    using u(2) by (simp del: of_nat_unat)
  have pos: "rxPackets fs > 0" using u(2) by (simp add: word_less_nat_alt)
  have 1: "meanJitter fs =
      do { j \<leftarrow> fdiv (jitterSum fs) (real (unat (rxPackets fs - 1))); Some (j * 1000) }"
    using True pos by (simp add: meanJitter_def)
  have 2: "fdiv (jitterSum fs) (real (unat (rxPackets fs - 1))) =
      Some (jitterSum fs / (real (unat (rxPackets fs)) - 1))"
    by (simp only: u(1) r fdiv_Some [OF nz])
  show ?thesis using True by (simp only: 1 2 Option.bind.simps if_True)
next
  case False
  then show ?thesis by (simp add: meanJitter_def)
qed

lemma avgSinr_total: "\<exists>a. avgSinr chanMetrics = Some a"
  by (simp add: avgSinr_def fdiv_def unsigned_eq_0_iff word_greater_zero_iff)

lemma sinrStdDev_total: "\<exists>d. sinrStdDev mean history = Some d"
  by (simp add: sinrStdDev_def fdiv_def Let_def)

lemma qoeScore_total: "\<exists>q. qoeScore embb thr delay loss jitter = Some q"
  by (cases embb) (simp_all only: qoeScore_urllc qoeScore_embb option.inject simp_thms)

lemma reliabilityScore_total: "\<exists>s. reliabilityScore chanMetrics avg = Some s"
  using reliabilityScore_samples [of chanMetrics avg]
    reliabilityScore_no_samples [of chanMetrics avg]
  by (cases "samples chanMetrics = 0") (auto simp: word_greater_zero_iff)

lemma flowRow_total: "\<exists>row. flowRow embb chanMetrics history fs = Some row"
proof -
  obtain a where a: "avgSinr chanMetrics = Some a" using avgSinr_total by blast
  obtain d where d: "sinrStdDev a history = Some d" using sinrStdDev_total by blast
  obtain l where l: "packetLossRatio fs = Some l" by (simp add: packetLossRatio_value)
  obtain t where t: "throughput fs = Some t" by (simp add: throughput_value)
  obtain m where m: "meanDelay fs = Some m" by (simp add: meanDelay_value)
  obtain j where j: "meanJitter fs = Some j" by (simp add: meanJitter_value)
  obtain q where q: "qoeScore embb t m l j = Some q" using qoeScore_total by blast
  obtain s where s: "reliabilityScore chanMetrics a = Some s"
    using reliabilityScore_total by blast
  show ?thesis by (simp add: flowRow_def a d l t m j q s)
qed

text \<open>
  C7. For every flow, every derived ratio exists, which means that none of its
  divisions has a zero denominator, and it takes the default 0 where the guard
  fails: the loss ratio is 0 when \<open>txPackets = 0\<close>; the throughput is 0 when
  \<open>rxPackets = 0\<close> or the duration \<open>timeLastRxPacket - timeFirstTxPacket\<close> is not
  positive; the mean delay is 0 when \<open>rxPackets = 0\<close>; the mean jitter is
  \<open>jitterSum / (rxPackets - 1) \<cdot> 1000\<close> when \<open>rxPackets > 1\<close> and 0 otherwise. The whole
  row of the flow, scores included, exists for every flow, every channel metrics and
  every history.
\<close>

theorem flow_ratios_zero_denominators:
  "(txPackets fs = 0 \<longrightarrow> packetLossRatio fs = Some 0)
   \<and> (txPackets fs \<noteq> 0 \<longrightarrow>
        packetLossRatio fs = Some (100 * real (unat (lostPackets fs)) / real (unat (txPackets fs))))
   \<and> (rxPackets fs = 0 \<or> timeLastRxPacket fs - timeFirstTxPacket fs \<le> 0 \<longrightarrow>
        throughput fs = Some 0)
   \<and> (rxPackets fs = 0 \<longrightarrow> meanDelay fs = Some 0)
   \<and> (rxPackets fs \<noteq> 0 \<longrightarrow>
        meanDelay fs = Some (delaySum fs / real (unat (rxPackets fs)) * 1000))
   \<and> (rxPackets fs > 1 \<longrightarrow>
        meanJitter fs = Some (jitterSum fs / (real (unat (rxPackets fs)) - 1) * 1000))
   \<and> (\<not> rxPackets fs > 1 \<longrightarrow> meanJitter fs = Some 0)
   \<and> (\<exists>row. flowRow embb chanMetrics history fs = Some row)"
  using flowRow_total [of embb chanMetrics history fs]
  by (simp add: packetLossRatio_value throughput_value meanDelay_value meanJitter_value)

text \<open>
  A flow with all counters at zero has all four ratios at 0. A flow with one packet
  received out of four, first sent and last received at the same instant, has the
  throughput 0 and the jitter 0, a loss of 75 percent and a mean delay of 250 ms. A
  flow with three packets received and a jitter sum of 4 ms has a mean jitter of 2 ms.
\<close>

theorem flow_ratios_zero_denominators_witness:
  "packetLossRatio \<lparr>txPackets = 0 :: 32 word, rxPackets = 0, rxBytes = 0,
        timeFirstTxPacket = 0, timeLastRxPacket = 0, delaySum = 0, jitterSum = 0\<rparr> = Some 0
   \<and> throughput \<lparr>txPackets = 0 :: 32 word, rxPackets = 0, rxBytes = 0,
        timeFirstTxPacket = 0, timeLastRxPacket = 0, delaySum = 0, jitterSum = 0\<rparr> = Some 0
   \<and> meanDelay \<lparr>txPackets = 0 :: 32 word, rxPackets = 0, rxBytes = 0,
        timeFirstTxPacket = 0, timeLastRxPacket = 0, delaySum = 0, jitterSum = 0\<rparr> = Some 0
   \<and> meanJitter \<lparr>txPackets = 0 :: 32 word, rxPackets = 0, rxBytes = 0,
        timeFirstTxPacket = 0, timeLastRxPacket = 0, delaySum = 0, jitterSum = 0\<rparr> = Some 0
   \<and> throughput \<lparr>txPackets = 4 :: 32 word, rxPackets = 1, rxBytes = 100,
        timeFirstTxPacket = 6, timeLastRxPacket = 6, delaySum = 0.25, jitterSum = 0\<rparr> = Some 0
   \<and> meanJitter \<lparr>txPackets = 4 :: 32 word, rxPackets = 1, rxBytes = 100,
        timeFirstTxPacket = 6, timeLastRxPacket = 6, delaySum = 0.25, jitterSum = 0\<rparr> = Some 0
   \<and> packetLossRatio \<lparr>txPackets = 4 :: 32 word, rxPackets = 1, rxBytes = 100,
        timeFirstTxPacket = 6, timeLastRxPacket = 6, delaySum = 0.25, jitterSum = 0\<rparr> = Some 75
   \<and> meanDelay \<lparr>txPackets = 4 :: 32 word, rxPackets = 1, rxBytes = 100,
        timeFirstTxPacket = 6, timeLastRxPacket = 6, delaySum = 0.25, jitterSum = 0\<rparr> = Some 250
   \<and> meanJitter \<lparr>txPackets = 4 :: 32 word, rxPackets = 3, rxBytes = 300,
        timeFirstTxPacket = 5, timeLastRxPacket = 6, delaySum = 0.25, jitterSum = 0.004\<rparr> = Some 2"
  using flow_ratios_zero_denominators [of "\<lparr>txPackets = 0 :: 32 word, rxPackets = 0, rxBytes = 0,
        timeFirstTxPacket = 0, timeLastRxPacket = 0, delaySum = 0, jitterSum = 0\<rparr>"]
    flow_ratios_zero_denominators [of "\<lparr>txPackets = 4 :: 32 word, rxPackets = 1, rxBytes = 100,
        timeFirstTxPacket = 6, timeLastRxPacket = 6, delaySum = 0.25, jitterSum = 0\<rparr>"]
    flow_ratios_zero_denominators [of "\<lparr>txPackets = 4 :: 32 word, rxPackets = 3, rxBytes = 300,
        timeFirstTxPacket = 5, timeLastRxPacket = 6, delaySum = 0.25, jitterSum = 0.004\<rparr>"]
  by (simp add: lostPackets_def)

subsection \<open>Lost packets\<close>

lemma unat_lostPackets:
  fixes fs :: "'w::len word FlowStats"
  assumes "LENGTH('w) \<le> 64"
  shows "unat (lostPackets fs) = unat (txPackets fs - rxPackets fs)"
proof -
  have "unat (txPackets fs - rxPackets fs) < 2 ^ LENGTH('w)"
    by (rule unsigned_less)
  also have "(2::nat) ^ LENGTH('w) \<le> 2 ^ 64"
    by (rule power_increasing) (use assms in simp_all)
  finally have "take_bit 64 (unat (txPackets fs - rxPackets fs)) = unat (txPackets fs - rxPackets fs)"
    by (simp add: take_bit_nat_eq_self)
  then show ?thesis
    by (simp add: lostPackets_def unsigned_ucast_eq)
qed

lemma wrapped_difference:
  fixes t r l m :: nat
  assumes "t < r" "r < m" "l = t + m - r"
  shows "int l = (int t - int r) mod int m" and "l = m - (r - t)" and "t < l"
proof -
  show "l = m - (r - t)" using assms by linarith
  show "t < l" using assms by linarith
  have il: "int l = int t - int r + int m" using assms by linarith
  have "(int t - int r) mod int m = (int t - int r + int m) mod int m"
    by simp
  also have "\<dots> = int t - int r + int m"
    by (rule mod_pos_pos_trivial) (use assms in linarith)+
  finally show "int l = (int t - int r) mod int m" using il by simp
qed

text \<open>
  C10, as amended. Let the packet counters have \<open>w \<le> 64\<close> bits. When
  \<open>rxPackets \<le> txPackets\<close>, \<open>lostPackets\<close> is the difference. When
  \<open>rxPackets > txPackets\<close>, the subtraction wraps: \<open>lostPackets\<close> is
  \<open>(txPackets - rxPackets) mod 2\<^sup>w\<close>, that is \<open>2\<^sup>w - (rxPackets - txPackets)\<close>, which
  is larger than \<open>txPackets\<close>; the loss ratio is then above 100 percent when
  \<open>txPackets\<close> is not zero, and is 0 when \<open>txPackets\<close> is zero.
\<close>

theorem lostPackets_wraps:
  fixes fs :: "'w::len word FlowStats"
  assumes "LENGTH('w) \<le> 64"
  shows "(rxPackets fs \<le> txPackets fs \<longrightarrow>
            unat (lostPackets fs) = unat (txPackets fs) - unat (rxPackets fs))
         \<and> (txPackets fs < rxPackets fs \<longrightarrow>
            int (unat (lostPackets fs)) =
              (int (unat (txPackets fs)) - int (unat (rxPackets fs))) mod 2 ^ LENGTH('w)
            \<and> unat (lostPackets fs) =
              2 ^ LENGTH('w) - (unat (rxPackets fs) - unat (txPackets fs))
            \<and> unat (txPackets fs) < unat (lostPackets fs)
            \<and> (txPackets fs \<noteq> 0 \<longrightarrow> (\<exists>p. packetLossRatio fs = Some p \<and> 100 < p))
            \<and> (txPackets fs = 0 \<longrightarrow> packetLossRatio fs = Some 0))"
proof -
  let ?t = "unat (txPackets fs)" and ?r = "unat (rxPackets fs)" and ?l = "unat (lostPackets fs)"
  have le: "?l = ?t - ?r" if "rxPackets fs \<le> txPackets fs"
    using that by (simp add: unat_lostPackets [OF assms] unat_sub)
  have wrap: "int ?l = (int ?t - int ?r) mod 2 ^ LENGTH('w)
        \<and> ?l = 2 ^ LENGTH('w) - (?r - ?t)
        \<and> ?t < ?l
        \<and> (txPackets fs \<noteq> 0 \<longrightarrow> (\<exists>p. packetLossRatio fs = Some p \<and> 100 < p))
        \<and> (txPackets fs = 0 \<longrightarrow> packetLossRatio fs = Some 0)"
    if lt: "txPackets fs < rxPackets fs"
  proof -
    have tr: "?t < ?r" using lt by (simp add: word_less_nat_alt)
    have rb: "?r < 2 ^ LENGTH('w)" by (rule unsigned_less)
    have l: "?l = ?t + 2 ^ LENGTH('w) - ?r"
      using tr by (simp add: unat_lostPackets [OF assms] unat_sub_if_size word_size)
    note w = wrapped_difference [OF tr rb l]
    have m: "int ?l = (int ?t - int ?r) mod 2 ^ LENGTH('w)"
      using w(1) by (simp only: of_nat_power of_nat_numeral)
    note l2 = w(2) and gt = w(3)
    have ratio: "\<exists>p. packetLossRatio fs = Some p \<and> 100 < p" if nz: "txPackets fs \<noteq> 0"
    proof -
      have tpos: "0 < real ?t" using nz by (simp add: unat_gt_0 del: of_nat_unat)
      have "real ?t < real ?l" using gt by (simp del: of_nat_unat)
      then have "100 * real ?t < 100 * real ?l" by simp
      then have "100 < 100 * real ?l / real ?t"
        using tpos by (simp add: pos_less_divide_eq del: of_nat_unat)
      moreover have "packetLossRatio fs = Some (100 * real ?l / real ?t)"
        using nz by (simp add: packetLossRatio_value)
      ultimately show ?thesis by blast
    qed
    have zero: "packetLossRatio fs = Some 0" if "txPackets fs = 0"
      using that by (simp add: packetLossRatio_value)
    from m l2 gt ratio zero show ?thesis by blast
  qed
  from le wrap show ?thesis by blast
qed

text \<open>
  Three packets sent and five received: with 64-bit counters \<open>lostPackets\<close> is
  \<open>2\<^sup>6\<^sup>4 - 2\<close> and the loss ratio is above 100 percent; with 32-bit counters
  \<open>lostPackets\<close> is \<open>2\<^sup>3\<^sup>2 - 2\<close>. Five sent and three received lose two.
\<close>

theorem lostPackets_wraps_witness:
  "unat (lostPackets \<lparr>txPackets = 3 :: 64 word, rxPackets = 5, rxBytes = 500,
        timeFirstTxPacket = 5, timeLastRxPacket = 6, delaySum = 0.25, jitterSum = 0\<rparr>)
     = 18446744073709551614
   \<and> (\<exists>p. packetLossRatio \<lparr>txPackets = 3 :: 64 word, rxPackets = 5, rxBytes = 500,
        timeFirstTxPacket = 5, timeLastRxPacket = 6, delaySum = 0.25, jitterSum = 0\<rparr> = Some p
          \<and> 100 < p)
   \<and> unat (lostPackets \<lparr>txPackets = 3 :: 32 word, rxPackets = 5, rxBytes = 500,
        timeFirstTxPacket = 5, timeLastRxPacket = 6, delaySum = 0.25, jitterSum = 0\<rparr>)
     = 4294967294
   \<and> unat (lostPackets \<lparr>txPackets = 5 :: 64 word, rxPackets = 3, rxBytes = 300,
        timeFirstTxPacket = 5, timeLastRxPacket = 6, delaySum = 0.25, jitterSum = 0\<rparr>) = 2"
  using lostPackets_wraps [of "\<lparr>txPackets = 3 :: 64 word, rxPackets = 5, rxBytes = 500,
        timeFirstTxPacket = 5, timeLastRxPacket = 6, delaySum = 0.25, jitterSum = 0\<rparr>"]
    lostPackets_wraps [of "\<lparr>txPackets = 3 :: 32 word, rxPackets = 5, rxBytes = 500,
        timeFirstTxPacket = 5, timeLastRxPacket = 6, delaySum = 0.25, jitterSum = 0\<rparr>"]
    lostPackets_wraps [of "\<lparr>txPackets = 5 :: 64 word, rxPackets = 3, rxBytes = 300,
        timeFirstTxPacket = 5, timeLastRxPacket = 6, delaySum = 0.25, jitterSum = 0\<rparr>"]
  by simp

text \<open>
  A flow that reports one packet received and none sent has \<open>rxPackets > txPackets\<close>
  and \<open>lostPackets = 2\<^sup>6\<^sup>4 - 1\<close>, but its loss ratio is 0, not above 100 percent: the
  guard on \<open>txPackets > 0\<close> takes the default.
\<close>

theorem lostPackets_no_tx_counterexample:
  "txPackets \<lparr>txPackets = 0 :: 64 word, rxPackets = 1, rxBytes = 100,
        timeFirstTxPacket = 5, timeLastRxPacket = 6, delaySum = 0.25, jitterSum = 0\<rparr>
     < rxPackets \<lparr>txPackets = 0 :: 64 word, rxPackets = 1, rxBytes = 100,
        timeFirstTxPacket = 5, timeLastRxPacket = 6, delaySum = 0.25, jitterSum = 0\<rparr>
   \<and> lostPackets \<lparr>txPackets = 0 :: 64 word, rxPackets = 1, rxBytes = 100,
        timeFirstTxPacket = 5, timeLastRxPacket = 6, delaySum = 0.25, jitterSum = 0\<rparr>
     = 18446744073709551615
   \<and> packetLossRatio \<lparr>txPackets = 0 :: 64 word, rxPackets = 1, rxBytes = 100,
        timeFirstTxPacket = 5, timeLastRxPacket = 6, delaySum = 0.25, jitterSum = 0\<rparr>
     = Some 0"
  by (simp add: lostPackets_def packetLossRatio_def)

subsection \<open>Load balance\<close>

lemma fold_max_ge_init:
  fixes f :: "'a \<Rightarrow> real"
  shows "a \<le> fold (\<lambda>e m. max m (f e)) xs a"
proof (induction xs arbitrary: a)
  case Nil
  show ?case by simp
next
  case (Cons x xs)
  have "a \<le> max a (f x)" by simp
  also have "\<dots> \<le> fold (\<lambda>e m. max m (f e)) xs (max a (f x))" by (rule Cons.IH)
  finally show ?case by simp
qed

lemma fold_max_ge_elem:
  fixes f :: "'a \<Rightarrow> real"
  shows "e \<in> set xs \<Longrightarrow> f e \<le> fold (\<lambda>e m. max m (f e)) xs a"
proof (induction xs arbitrary: a)
  case Nil
  then show ?case by simp
next
  case (Cons x xs)
  show ?case
  proof (cases "e = x")
    case True
    have "f x \<le> max a (f x)" by simp
    also have "\<dots> \<le> fold (\<lambda>e m. max m (f e)) xs (max a (f x))" by (rule fold_max_ge_init)
    finally show ?thesis using True by simp
  next
    case False
    with Cons.prems have "e \<in> set xs" by simp
    from Cons.IH [OF this] show ?thesis by simp
  qed
qed

lemma fold_max_attained:
  fixes f :: "'a \<Rightarrow> real"
  shows "fold (\<lambda>e m. max m (f e)) xs a = a \<or> (\<exists>e \<in> set xs. fold (\<lambda>e m. max m (f e)) xs a = f e)"
proof (induction xs arbitrary: a)
  case Nil
  show ?case by simp
next
  case (Cons x xs)
  from Cons.IH [of "max a (f x)"] show ?case
    by (auto simp: max_def split: if_splits)
qed

lemma maxCellThroughput_bounds:
  "0 \<le> maxCellThroughput cs"
  "e \<in> set cs \<Longrightarrow> totalThroughput (snd e) \<le> maxCellThroughput cs"
  "0 < maxCellThroughput cs \<Longrightarrow> \<exists>e \<in> set cs. totalThroughput (snd e) = maxCellThroughput cs"
proof -
  show "0 \<le> maxCellThroughput cs"
    unfolding maxCellThroughput_def by (rule fold_max_ge_init)
  show "totalThroughput (snd e) \<le> maxCellThroughput cs" if "e \<in> set cs"
    unfolding maxCellThroughput_def
    using fold_max_ge_elem [OF that, of "\<lambda>e. totalThroughput (snd e)" 0] by simp
  show "\<exists>e \<in> set cs. totalThroughput (snd e) = maxCellThroughput cs" if "0 < maxCellThroughput cs"
    using that fold_max_attained [of "\<lambda>e. totalThroughput (snd e)" cs 0]
    unfolding maxCellThroughput_def by force
qed

lemma loadBalance_value:
  "loadBalance cs c =
     Some (if maxCellThroughput cs > 0
           then totalThroughput (summaryOf cs c) / maxCellThroughput cs * 100 else 0)"
  by (simp add: loadBalance_def Let_def fdiv_def)

lemma summaryOf_entry:
  "distinct (map fst cs) \<Longrightarrow> e \<in> set cs \<Longrightarrow> summaryOf cs (fst e) = snd e"
  by (cases e) (simp add: summaryOf_def)

text \<open>
  C8, as amended. \<open>maxCellThroughput\<close> is the largest total throughput over the
  entries of \<open>cellSummaries\<close>, and at least 0. When it is positive, the load balance of
  a cell is \<open>100 \<cdot> totalThroughput / maxCellThroughput\<close>, it is exactly 100 for a cell
  whose total throughput is the maximum, and (the keys of a \<^verbatim>\<open>std::map\<close> being
  distinct) some cell has that value. When it is not positive, the load balance of
  every cell is 0.
\<close>

theorem loadBalance_of_max:
  "(maxCellThroughput cs > 0 \<longrightarrow>
      loadBalance cs c = Some (100 * totalThroughput (summaryOf cs c) / maxCellThroughput cs))
   \<and> (maxCellThroughput cs > 0 \<and> totalThroughput (summaryOf cs c) = maxCellThroughput cs \<longrightarrow>
      loadBalance cs c = Some 100)
   \<and> (\<not> maxCellThroughput cs > 0 \<longrightarrow> loadBalance cs c = Some 0)
   \<and> 0 \<le> maxCellThroughput cs
   \<and> (\<forall>e \<in> set cs. totalThroughput (snd e) \<le> maxCellThroughput cs)
   \<and> (maxCellThroughput cs > 0 \<and> distinct (map fst cs) \<longrightarrow>
      (\<exists>e \<in> set cs. totalThroughput (summaryOf cs (fst e)) = maxCellThroughput cs
         \<and> loadBalance cs (fst e) = Some 100))"
proof -
  have att: "\<exists>e \<in> set cs. totalThroughput (summaryOf cs (fst e)) = maxCellThroughput cs
         \<and> loadBalance cs (fst e) = Some 100"
    if pos: "maxCellThroughput cs > 0" and d: "distinct (map fst cs)"
  proof -
    from maxCellThroughput_bounds(3) [OF pos] obtain e
      where e: "e \<in> set cs" and m: "totalThroughput (snd e) = maxCellThroughput cs"
      by blast
    have "summaryOf cs (fst e) = snd e" using d e by (rule summaryOf_entry)
    with m pos have "totalThroughput (summaryOf cs (fst e)) = maxCellThroughput cs"
      and "loadBalance cs (fst e) = Some 100"
      by (simp_all add: loadBalance_value)
    with e show ?thesis by blast
  qed
  show ?thesis
    using att maxCellThroughput_bounds(1) [of cs] maxCellThroughput_bounds(2) [of _ cs]
    by (simp add: loadBalance_value)
qed

text \<open>
  Two cells with 30 and 60 Mbps: the maximum is 60, the load balance is 100 for cell
  1, 50 for cell 0 and 0 for cell 2, which has no flow. Without any flow the load
  balance of cell 0 is 0.
\<close>

theorem loadBalance_of_max_witness:
  "maxCellThroughput [(0, CellSummary_default\<lparr>totalThroughput := 30\<rparr>),
                      (1, CellSummary_default\<lparr>totalThroughput := 60\<rparr>)] = 60
   \<and> loadBalance [(0, CellSummary_default\<lparr>totalThroughput := 30\<rparr>),
                  (1, CellSummary_default\<lparr>totalThroughput := 60\<rparr>)] 1 = Some 100
   \<and> loadBalance [(0, CellSummary_default\<lparr>totalThroughput := 30\<rparr>),
                  (1, CellSummary_default\<lparr>totalThroughput := 60\<rparr>)] 0 = Some 50
   \<and> loadBalance [(0, CellSummary_default\<lparr>totalThroughput := 30\<rparr>),
                  (1, CellSummary_default\<lparr>totalThroughput := 60\<rparr>)] 2 = Some 0
   \<and> loadBalance [] 0 = Some 0"
proof -
  have m: "maxCellThroughput [(0, CellSummary_default\<lparr>totalThroughput := 30\<rparr>),
                      (1, CellSummary_default\<lparr>totalThroughput := 60\<rparr>)] = 60"
    by (simp add: maxCellThroughput_def)
  have e: "maxCellThroughput [] = 0"
    by (simp add: maxCellThroughput_def)
  show ?thesis
    using loadBalance_of_max [of "[(0, CellSummary_default\<lparr>totalThroughput := 30\<rparr>),
                      (1, CellSummary_default\<lparr>totalThroughput := 60\<rparr>)]" 1]
      loadBalance_of_max [of "[(0, CellSummary_default\<lparr>totalThroughput := 30\<rparr>),
                      (1, CellSummary_default\<lparr>totalThroughput := 60\<rparr>)]" 0]
      loadBalance_of_max [of "[(0, CellSummary_default\<lparr>totalThroughput := 30\<rparr>),
                      (1, CellSummary_default\<lparr>totalThroughput := 60\<rparr>)]" 2]
      loadBalance_of_max [of "[]" 0]
    by (simp add: m e summaryOf_def CellSummary_default_def)
qed

text \<open>
  One cell whose flows received nothing: its total throughput, 0, is the maximum over
  all cells, and its load balance is 0, not 100.
\<close>

theorem loadBalance_all_idle_counterexample:
  "totalThroughput (summaryOf [(0, CellSummary_default)] 0) = maxCellThroughput [(0, CellSummary_default)]
   \<and> loadBalance [(0, CellSummary_default)] 0 = Some 0"
  by (simp add: loadBalance_def maxCellThroughput_def summaryOf_def CellSummary_default_def)

end
